theory Spec2Isabelle
  imports Main "HOL-Library.Sublist"
begin

section \<open>The todo domain: value objects\<close>

text \<open>
  A shallow embedding of the domain layer (value objects, domain events, the Todo
  aggregate) and of the application service of the todo service. Go strings are byte
  sequences, so a Go \<open>string\<close> is a \<open>string\<close> here (a list of 8-bit characters) and
  \<open>len\<close> is \<open>length\<close>. Inside the domain a \<open>time.Time\<close> is identified with its
  instant, an integer number of nanoseconds counted from Go's zero time, so
  \<open>a.After(b)\<close> is \<open>b < a\<close>. A \<open>time.Time\<close> that arrives in a request keeps its location
  too (\<open>timeValue\<close> below), since the application service compares it as a struct.
\<close>

type_synonym time = int


definition second :: time where
  "second = 1000000000"

text \<open>
  A \<open>time.Time\<close> struct as a request carries it: its instant and its location pointer
  (\<open>None\<close> for the \<open>nil\<close> pointer, which means UTC; \<open>Some\<close> of its name for any other
  location, a non-\<open>nil\<close> UTC location included). The struct is equal to \<open>time.Time{}\<close>
  exactly when the instant is the zero instant and the location pointer is \<open>nil\<close>: a
  time without a monotonic clock reading stores its instant in the two integer fields,
  which are both zero only at the zero instant, and a time with such a reading is never
  at the zero instant.
\<close>

record timeValue =
  instant :: time
  location :: "string option"


subsection \<open>The environment: clock and identifier source\<close>

text \<open>
  \<open>time.Now()\<close> and \<open>uuid.New()\<close> read the outside world. The world is passed
  explicitly: \<open>clock w n\<close> is the value the \<open>n\<close>-th coming call of \<open>time.Now()\<close>
  returns, \<open>uuids w n\<close> the string of the \<open>n\<close>-th coming fresh identifier. No
  monotonicity of the clock is assumed.
\<close>

record world =
  clock :: "nat \<Rightarrow> time"
  uuids :: "nat \<Rightarrow> string"

definition timeNow :: "world \<Rightarrow> time \<times> world" where
  "timeNow w = (clock w 0, w\<lparr>clock := (\<lambda>n. clock w (Suc n))\<rparr>)"

definition uuidNewString :: "world \<Rightarrow> string \<times> world" where
  "uuidNewString w = (uuids w 0, w\<lparr>uuids := (\<lambda>n. uuids w (Suc n))\<rparr>)"

subsection \<open>Errors\<close>

text \<open>
  The sentinel errors of \<open>errors.go\<close>, its two structured errors, the wrapping done by
  \<open>fmt.Errorf("...: %w", err)\<close> (the context string without its colon), and
  \<open>AdapterError\<close> for any other error value an adapter behind a port returns.
\<close>

datatype error =
    ErrInvalidTitle
  | ErrInvalidDueDate
  | ErrInvalidPriority
  | ErrInvalidStatus
  | ErrInvalidID
  | ErrCannotCompleteCancelled
  | ErrCannotModifyCompleted
  | ErrTodoNotFound
  | ErrTodoAlreadyExists
  | ErrInvalidStatusTransition
  | ValidationError (Field: string) (Message: string)
  | BusinessRuleError (Rule: string) (Message: string)
  | Wrapped string error
  | AdapterError string

definition NewValidationError :: "string \<Rightarrow> string \<Rightarrow> error" where
  "NewValidationError field message = ValidationError field message"

definition NewBusinessRuleError :: "string \<Rightarrow> string \<Rightarrow> error" where
  "NewBusinessRuleError rule message = BusinessRuleError rule message"

subsection \<open>Library functions on strings\<close>

text \<open>
  \<open>unicode.IsSpace\<close> holds of the runes U+0009 to U+000D, U+0020, U+0085, U+00A0,
  U+1680, U+2000 to U+200A, U+2028, U+2029, U+202F, U+205F and U+3000.
  \<open>spaceRunes\<close> lists their UTF-8 encodings. A rune is decoded from exactly its
  (shortest) encoding, so a string starts (ends) with a white space rune iff one of
  these byte sequences is a prefix (suffix) of it.
\<close>

definition spaceRunes :: "string list" where
  "spaceRunes =
    [[CHR 0x09], [CHR 0x0A], [CHR 0x0B], [CHR 0x0C], [CHR 0x0D], [CHR 0x20],
     [CHR 0xC2, CHR 0x85], [CHR 0xC2, CHR 0xA0],
     [CHR 0xE1, CHR 0x9A, CHR 0x80],
     [CHR 0xE2, CHR 0x80, CHR 0x80], [CHR 0xE2, CHR 0x80, CHR 0x81],
     [CHR 0xE2, CHR 0x80, CHR 0x82], [CHR 0xE2, CHR 0x80, CHR 0x83],
     [CHR 0xE2, CHR 0x80, CHR 0x84], [CHR 0xE2, CHR 0x80, CHR 0x85],
     [CHR 0xE2, CHR 0x80, CHR 0x86], [CHR 0xE2, CHR 0x80, CHR 0x87],
     [CHR 0xE2, CHR 0x80, CHR 0x88], [CHR 0xE2, CHR 0x80, CHR 0x89],
     [CHR 0xE2, CHR 0x80, CHR 0x8A],
     [CHR 0xE2, CHR 0x80, CHR 0xA8], [CHR 0xE2, CHR 0x80, CHR 0xA9],
     [CHR 0xE2, CHR 0x80, CHR 0xAF],
     [CHR 0xE2, CHR 0x81, CHR 0x9F],
     [CHR 0xE3, CHR 0x80, CHR 0x80]]"

text \<open>
  The number of bytes of the first of the runes \<open>rs\<close> that the string starts with,
  \<open>0\<close> when it starts with none.
\<close>

fun leadingRune :: "string list \<Rightarrow> string \<Rightarrow> nat" where
  "leadingRune [] s = 0"
| "leadingRune (r # rs) s = (if prefix r s then length r else leadingRune rs s)"

text \<open>\<open>strings.TrimLeftFunc\<close>: drop leading runes of the given set, one at a time.\<close>

function trimLeftRunes :: "string list \<Rightarrow> string \<Rightarrow> string" where
  "trimLeftRunes rs s =
     (if leadingRune rs s = 0 then s else trimLeftRunes rs (drop (leadingRune rs s) s))"
  by pat_completeness auto
termination
proof (relation "measure (\<lambda>(rs, s). length s)")
  show "wf (measure (\<lambda>(rs, s). length s))" by simp
next
  fix rs :: "string list" and s :: string
  assume pos: "leadingRune rs s \<noteq> 0"
  have "leadingRune rs s \<le> length s"
    by (induction rs) (auto simp: prefix_length_le)
  with pos show "((rs, drop (leadingRune rs s) s), (rs, s)) \<in> measure (\<lambda>(rs, s). length s)"
    by simp
qed

declare trimLeftRunes.simps [simp del]

text \<open>
  \<open>strings.TrimSpace\<close>: white space runes are removed from the front, then from the
  back of what is left (the trailing runes are read backwards, which is the leading
  runes of the reversed string against the reversed encodings).
\<close>

definition TrimSpace :: "string \<Rightarrow> string" where
  "TrimSpace s = rev (trimLeftRunes (map rev spaceRunes) (rev (trimLeftRunes spaceRunes s)))"

text \<open>
  \<open>strings.ToLower\<close>. On a string of ASCII bytes only, the letters A to Z are mapped to
  a to z and every other byte is kept. On any other string Go maps each rune by the
  Unicode tables (\<open>strings.Map(unicode.ToLower, s)\<close>, which for instance turns U+0130
  into "i"); the tables belong to the standard library, and \<open>unicodeLower\<close> stands for that
  mapping: it is a parameter of everything that lower-cases a string.
\<close>

definition lowerByte :: "char \<Rightarrow> char" where
  "lowerByte c =
     (let n = (of_char c :: nat) in
      if 65 \<le> n \<and> n \<le> 90 then char_of (n + 32) else c)"

definition isASCII :: "string \<Rightarrow> bool" where
  "isASCII s = list_all (\<lambda>c. (of_char c :: nat) < 128) s"

definition ToLower :: "(string \<Rightarrow> string) \<Rightarrow> string \<Rightarrow> string" where
  "ToLower unicodeLower s = (if isASCII s then map lowerByte s else unicodeLower s)"

subsection \<open>TodoID\<close>

type_synonym TodoID = string

definition NewTodoID :: "world \<Rightarrow> TodoID \<times> world" where
  "NewTodoID w = uuidNewString w"


subsection \<open>TaskTitle\<close>

datatype TaskTitle = TaskTitle (value': string)

definition NewTaskTitle :: "string \<Rightarrow> error + TaskTitle" where
  "NewTaskTitle title =
     (let trimmed = TrimSpace title in
      if length trimmed = 0 then Inl (NewValidationError ''title'' ''cannot be empty'')
      else if length trimmed > 200
        then Inl (NewValidationError ''title'' ''cannot exceed 200 characters'')
      else Inr (TaskTitle trimmed))"

subsection \<open>TaskStatus\<close>

text \<open>A \<open>TaskStatus\<close> is a Go string type: any string is a value of it.\<close>

type_synonym TaskStatus = string

definition StatusPending :: TaskStatus where
  "StatusPending = ''pending''"

definition StatusInProgress :: TaskStatus where
  "StatusInProgress = ''in_progress''"

definition StatusCompleted :: TaskStatus where
  "StatusCompleted = ''completed''"

definition StatusCancelled :: TaskStatus where
  "StatusCancelled = ''cancelled''"


definition IsCompleted :: "TaskStatus \<Rightarrow> bool" where
  "IsCompleted s \<longleftrightarrow> s = StatusCompleted"

definition IsCancelled :: "TaskStatus \<Rightarrow> bool" where
  "IsCancelled s \<longleftrightarrow> s = StatusCancelled"

definition CanTransitionTo :: "TaskStatus \<Rightarrow> TaskStatus \<Rightarrow> bool" where
  "CanTransitionTo s newStatus =
     (if s = StatusCompleted \<and> newStatus \<noteq> StatusPending then False
      else if s = StatusCancelled \<and> newStatus = StatusCompleted then False
      else True)"

subsection \<open>Priority\<close>

type_synonym Priority = string

definition PriorityLow :: Priority where
  "PriorityLow = ''low''"

definition PriorityMedium :: Priority where
  "PriorityMedium = ''medium''"

definition PriorityHigh :: Priority where
  "PriorityHigh = ''high''"

definition PriorityUrgent :: Priority where
  "PriorityUrgent = ''urgent''"

definition NewPriority :: "(string \<Rightarrow> string) \<Rightarrow> string \<Rightarrow> error + Priority" where
  "NewPriority unicodeLower priority =
     (let p = ToLower unicodeLower priority in
      if p = PriorityLow \<or> p = PriorityMedium \<or> p = PriorityHigh \<or> p = PriorityUrgent
      then Inr p else Inl ErrInvalidPriority)"

definition DefaultPriority :: Priority where
  "DefaultPriority = PriorityMedium"

subsection \<open>DueDate\<close>

datatype DueDate = DueDate (Time: time)

definition NewDueDate :: "time \<Rightarrow> world \<Rightarrow> (error + DueDate) \<times> world" where
  "NewDueDate date w =
     (let (now, w1) = timeNow w in
      if \<not> now < date then (Inl ErrInvalidDueDate, w1)
      else (Inr (DueDate date), w1))"

section \<open>Domain events\<close>

text \<open>
  Each event struct embeds \<open>BaseDomainEvent\<close>; the interface \<open>DomainEvent\<close> is the sum
  of the five structs that implement it.
\<close>

record BaseDomainEvent =
  aggregateID :: string
  occurredAt :: time

record TodoCreated = BaseDomainEvent +
  Title :: string
  Description :: string
  Priority :: string
  DueDate :: "time option"

record TodoUpdated = BaseDomainEvent +
  Title :: "string option"
  Description :: "string option"
  Priority :: "string option"
  DueDate :: "time option"
  Status :: "string option"

record TodoCompleted = BaseDomainEvent +
  CompletedAt :: time

record TodoReopened = BaseDomainEvent +
  PreviousStatus :: string

type_synonym TodoDeleted = BaseDomainEvent

datatype DomainEvent =
    EvTodoCreated TodoCreated
  | EvTodoUpdated TodoUpdated
  | EvTodoCompleted TodoCompleted
  | EvTodoReopened TodoReopened
  | EvTodoDeleted TodoDeleted

fun EventType :: "DomainEvent \<Rightarrow> string" where
  "EventType (EvTodoCreated e) = ''TodoCreated''"
| "EventType (EvTodoUpdated e) = ''TodoUpdated''"
| "EventType (EvTodoCompleted e) = ''TodoCompleted''"
| "EventType (EvTodoReopened e) = ''TodoReopened''"
| "EventType (EvTodoDeleted e) = ''TodoDeleted''"

fun AggregateID :: "DomainEvent \<Rightarrow> string" where
  "AggregateID (EvTodoCreated e) = aggregateID e"
| "AggregateID (EvTodoUpdated e) = aggregateID e"
| "AggregateID (EvTodoCompleted e) = aggregateID e"
| "AggregateID (EvTodoReopened e) = aggregateID e"
| "AggregateID (EvTodoDeleted e) = aggregateID e"

fun OccurredAt :: "DomainEvent \<Rightarrow> time" where
  "OccurredAt (EvTodoCreated e) = occurredAt e"
| "OccurredAt (EvTodoUpdated e) = occurredAt e"
| "OccurredAt (EvTodoCompleted e) = occurredAt e"
| "OccurredAt (EvTodoReopened e) = occurredAt e"
| "OccurredAt (EvTodoDeleted e) = occurredAt e"

definition NewTodoCreatedEvent ::
  "TodoID \<Rightarrow> TaskTitle \<Rightarrow> string \<Rightarrow> Priority \<Rightarrow> DueDate option \<Rightarrow> world \<Rightarrow> TodoCreated \<times> world"
where
  "NewTodoCreatedEvent ident title description priority dueDate w =
     (let dueDatePtr = (case dueDate of None \<Rightarrow> None | Some d \<Rightarrow> Some (Time d));
          (now, w1) = timeNow w
      in (\<lparr>aggregateID = ident, occurredAt = now,
           TodoCreated.Title = value' title, TodoCreated.Description = description,
           TodoCreated.Priority = priority, TodoCreated.DueDate = dueDatePtr\<rparr>, w1))"

definition NewTodoUpdatedEvent :: "TodoID \<Rightarrow> world \<Rightarrow> TodoUpdated \<times> world" where
  "NewTodoUpdatedEvent ident w =
     (let (now, w1) = timeNow w
      in (\<lparr>aggregateID = ident, occurredAt = now,
           TodoUpdated.Title = None, TodoUpdated.Description = None,
           TodoUpdated.Priority = None, TodoUpdated.DueDate = None,
           TodoUpdated.Status = None\<rparr>, w1))"

definition NewTodoCompletedEvent :: "TodoID \<Rightarrow> time \<Rightarrow> world \<Rightarrow> TodoCompleted \<times> world" where
  "NewTodoCompletedEvent ident completedAt w =
     (let (now, w1) = timeNow w
      in (\<lparr>aggregateID = ident, occurredAt = now, CompletedAt = completedAt\<rparr>, w1))"

definition NewTodoReopenedEvent :: "TodoID \<Rightarrow> TaskStatus \<Rightarrow> world \<Rightarrow> TodoReopened \<times> world" where
  "NewTodoReopenedEvent ident previousStatus w =
     (let (now, w1) = timeNow w
      in (\<lparr>aggregateID = ident, occurredAt = now, PreviousStatus = previousStatus\<rparr>, w1))"

definition NewTodoDeletedEvent :: "TodoID \<Rightarrow> world \<Rightarrow> TodoDeleted \<times> world" where
  "NewTodoDeletedEvent ident w =
     (let (now, w1) = timeNow w
      in (\<lparr>aggregateID = ident, occurredAt = now\<rparr>, w1))"

section \<open>The Todo aggregate\<close>

text \<open>
  A method \<open>func (t *Todo) M(...) error\<close> mutates the aggregate in place and returns an
  error or \<open>nil\<close>: here it takes the aggregate and the world and returns the error
  (\<open>None\<close> for \<open>nil\<close>), the aggregate after the call and the world after the call.
\<close>

record Todo =
  id :: TodoID
  title :: TaskTitle
  description :: string
  status :: TaskStatus
  priority :: Priority
  dueDate :: "DueDate option"
  createdAt :: time
  updatedAt :: time
  completedAt :: "time option"
  events :: "DomainEvent list"

definition addEvent :: "DomainEvent \<Rightarrow> Todo \<Rightarrow> Todo" where
  "addEvent event t = t\<lparr>events := events t @ [event]\<rparr>"

definition ClearEvents :: "Todo \<Rightarrow> Todo" where
  "ClearEvents t = t\<lparr>events := []\<rparr>"

definition NewTodo ::
  "TaskTitle \<Rightarrow> string \<Rightarrow> Priority \<Rightarrow> DueDate option \<Rightarrow> world \<Rightarrow> Todo \<times> world"
where
  "NewTodo newTitle newDescription newPriority newDueDate w =
     (let (ident, w1) = NewTodoID w;
          (now, w2) = timeNow w1;
          todo = \<lparr>Todo.id = ident, title = newTitle, description = newDescription,
                  status = StatusPending, priority = newPriority, dueDate = newDueDate,
                  createdAt = now, updatedAt = now, completedAt = None, events = []\<rparr>;
          (ev, w3) = NewTodoCreatedEvent ident newTitle newDescription newPriority newDueDate w2
      in (addEvent (EvTodoCreated ev) todo, w3))"

definition ReconstituteTodo ::
  "TodoID \<Rightarrow> TaskTitle \<Rightarrow> string \<Rightarrow> TaskStatus \<Rightarrow> Priority \<Rightarrow> DueDate option \<Rightarrow> time \<Rightarrow> time
     \<Rightarrow> time option \<Rightarrow> Todo"
where
  "ReconstituteTodo ident t d s p dd created updated completed =
     \<lparr>Todo.id = ident, title = t, description = d, status = s, priority = p, dueDate = dd,
      createdAt = created, updatedAt = updated, completedAt = completed, events = []\<rparr>"

definition UpdateTitle :: "TaskTitle \<Rightarrow> Todo \<Rightarrow> world \<Rightarrow> error option \<times> Todo \<times> world" where
  "UpdateTitle newTitle t w =
     (if IsCompleted (status t) then (Some ErrCannotModifyCompleted, t, w)
      else
        let (now, w1) = timeNow w;
            t1 = t\<lparr>title := newTitle, updatedAt := now\<rparr>;
            (ev, w2) = NewTodoUpdatedEvent (Todo.id t1) w1
        in (None, addEvent (EvTodoUpdated ev) t1, w2))"

definition UpdateDescription :: "string \<Rightarrow> Todo \<Rightarrow> world \<Rightarrow> error option \<times> Todo \<times> world" where
  "UpdateDescription newDescription t w =
     (if IsCompleted (status t) then (Some ErrCannotModifyCompleted, t, w)
      else
        let (now, w1) = timeNow w;
            t1 = t\<lparr>description := newDescription, updatedAt := now\<rparr>;
            (ev, w2) = NewTodoUpdatedEvent (Todo.id t1) w1
        in (None, addEvent (EvTodoUpdated ev) t1, w2))"

definition UpdatePriority :: "Priority \<Rightarrow> Todo \<Rightarrow> world \<Rightarrow> error option \<times> Todo \<times> world" where
  "UpdatePriority newPriority t w =
     (if IsCompleted (status t) then (Some ErrCannotModifyCompleted, t, w)
      else
        let (now, w1) = timeNow w;
            t1 = t\<lparr>priority := newPriority, updatedAt := now\<rparr>;
            (ev, w2) = NewTodoUpdatedEvent (Todo.id t1) w1
        in (None, addEvent (EvTodoUpdated ev) t1, w2))"

definition UpdateDueDate :: "DueDate option \<Rightarrow> Todo \<Rightarrow> world \<Rightarrow> error option \<times> Todo \<times> world" where
  "UpdateDueDate newDueDate t w =
     (if IsCompleted (status t) then (Some ErrCannotModifyCompleted, t, w)
      else
        let (now, w1) = timeNow w;
            t1 = t\<lparr>dueDate := newDueDate, updatedAt := now\<rparr>;
            (ev, w2) = NewTodoUpdatedEvent (Todo.id t1) w1
        in (None, addEvent (EvTodoUpdated ev) t1, w2))"

definition UpdateStatus :: "TaskStatus \<Rightarrow> Todo \<Rightarrow> world \<Rightarrow> error option \<times> Todo \<times> world" where
  "UpdateStatus newStatus t w =
     (if \<not> CanTransitionTo (status t) newStatus
      then (Some (NewBusinessRuleError ''status_transition''
                    (''cannot transition from '' @ status t @ '' to '' @ newStatus)), t, w)
      else
        let (now, w1) = timeNow w;
            t1 = t\<lparr>status := newStatus, updatedAt := now\<rparr>;
            (ev, w2) = NewTodoUpdatedEvent (Todo.id t1) w1
        in (None, addEvent (EvTodoUpdated ev) t1, w2))"

definition Complete :: "Todo \<Rightarrow> world \<Rightarrow> error option \<times> Todo \<times> world" where
  "Complete t w =
     (if IsCancelled (status t) then (Some ErrCannotCompleteCancelled, t, w)
      else if IsCompleted (status t) then (None, t, w)
      else
        let (now, w1) = timeNow w;
            t1 = t\<lparr>status := StatusCompleted, completedAt := Some now, updatedAt := now\<rparr>;
            (ev, w2) = NewTodoCompletedEvent (Todo.id t1) now w1
        in (None, addEvent (EvTodoCompleted ev) t1, w2))"

definition Reopen :: "Todo \<Rightarrow> world \<Rightarrow> error option \<times> Todo \<times> world" where
  "Reopen t w =
     (if \<not> IsCompleted (status t) \<and> \<not> IsCancelled (status t) then (None, t, w)
      else
        let previousStatus = status t;
            (now, w1) = timeNow w;
            t1 = t\<lparr>status := StatusPending, completedAt := None, updatedAt := now\<rparr>;
            (ev, w2) = NewTodoReopenedEvent (Todo.id t1) previousStatus w1
        in (None, addEvent (EvTodoReopened ev) t1, w2))"

definition Cancel :: "Todo \<Rightarrow> world \<Rightarrow> error option \<times> Todo \<times> world" where
  "Cancel t w =
     (if IsCompleted (status t) then (Some ErrCannotModifyCompleted, t, w)
      else if IsCancelled (status t) then (None, t, w)
      else
        let (now, w1) = timeNow w;
            t1 = t\<lparr>status := StatusCancelled, updatedAt := now\<rparr>;
            (ev, w2) = NewTodoUpdatedEvent (Todo.id t1) w1
        in (None, addEvent (EvTodoUpdated ev) t1, w2))"

definition MarkInProgress :: "Todo \<Rightarrow> world \<Rightarrow> error option \<times> Todo \<times> world" where
  "MarkInProgress t w =
     (if IsCompleted (status t) then (Some ErrCannotModifyCompleted, t, w)
      else if status t = StatusInProgress then (None, t, w)
      else
        let (now, w1) = timeNow w;
            t1 = t\<lparr>status := StatusInProgress, updatedAt := now\<rparr>;
            (ev, w2) = NewTodoUpdatedEvent (Todo.id t1) w1
        in (None, addEvent (EvTodoUpdated ev) t1, w2))"

subsection \<open>Sequences of operations\<close>

text \<open>
  The public mutating operations of the aggregate, and a run of a sequence of them on a
  todo. An operation that returns an error leaves the todo as it was, and the run goes
  on with the next one.
\<close>

datatype operation =
    OpUpdateTitle TaskTitle
  | OpUpdateDescription string
  | OpUpdatePriority Priority
  | OpUpdateDueDate "DueDate option"
  | OpUpdateStatus TaskStatus
  | OpComplete
  | OpReopen
  | OpCancel
  | OpMarkInProgress

fun perform :: "operation \<Rightarrow> Todo \<Rightarrow> world \<Rightarrow> error option \<times> Todo \<times> world" where
  "perform (OpUpdateTitle newTitle) t w = UpdateTitle newTitle t w"
| "perform (OpUpdateDescription newDescription) t w = UpdateDescription newDescription t w"
| "perform (OpUpdatePriority newPriority) t w = UpdatePriority newPriority t w"
| "perform (OpUpdateDueDate newDueDate) t w = UpdateDueDate newDueDate t w"
| "perform (OpUpdateStatus newStatus) t w = UpdateStatus newStatus t w"
| "perform OpComplete t w = Complete t w"
| "perform OpReopen t w = Reopen t w"
| "perform OpCancel t w = Cancel t w"
| "perform OpMarkInProgress t w = MarkInProgress t w"

fun performAll :: "operation list \<Rightarrow> Todo \<Rightarrow> world \<Rightarrow> Todo \<times> world" where
  "performAll [] t w = (t, w)"
| "performAll (operation # rest) t w =
     (case perform operation t w of (err, t1, w1) \<Rightarrow> performAll rest t1 w1)"

fun isUpdateStatus :: "operation \<Rightarrow> bool" where
  "isUpdateStatus (OpUpdateStatus newStatus) = True"
| "isUpdateStatus operation = False"

text \<open>The completion time is set exactly when the status is completed.\<close>

definition completedAtInvariant :: "Todo \<Rightarrow> bool" where
  "completedAtInvariant t \<longleftrightarrow> ((completedAt t \<noteq> None) = (status t = StatusCompleted))"

section \<open>The application service\<close>

subsection \<open>Data transfer objects\<close>

record CreateTodoRequest =
  Title :: string
  Description :: string
  Priority :: string
  DueDate :: "timeValue option"

record UpdateTodoRequest =
  Title :: "string option"
  Description :: "string option"
  Priority :: "string option"
  DueDate :: "timeValue option"
  Status :: "string option"

record TodoResponse =
  ID :: string
  Title :: string
  Description :: string
  Status :: string
  Priority :: string
  DueDate :: "time option"
  CreatedAt :: time
  UpdatedAt :: time

record ListFilters =
  Status :: "string option"
  Priority :: "string option"
  Limit :: "int option"
  Offset :: "int option"


definition MapTodoToResponse :: "Todo \<Rightarrow> TodoResponse" where
  "MapTodoToResponse todo =
     \<lparr>ID = Todo.id todo, TodoResponse.Title = value' (title todo),
      TodoResponse.Description = description todo, TodoResponse.Status = status todo,
      TodoResponse.Priority = priority todo,
      TodoResponse.DueDate = (case dueDate todo of None \<Rightarrow> None | Some d \<Rightarrow> Some (Time d)),
      CreatedAt = createdAt todo, UpdatedAt = updatedAt todo\<rparr>"


subsection \<open>Ports\<close>

record Filters =
  Status :: "TaskStatus option"
  Priority :: "Priority option"
  Limit :: "int option"
  Offset :: "int option"

text \<open>
  The two ports are interfaces implemented outside the core. An implementation is given
  by what each of its methods returns (an error, \<open>None\<close> for \<open>nil\<close>, or a value). A use
  case calls each method at most once, so this covers every behaviour of an adapter
  that leaves the aggregate it is handed as it is, and whose \<open>FindByID\<close> and \<open>FindAll\<close>
  return a result whenever they return no error.
\<close>

record TodoRepository =
  Save :: "Todo \<Rightarrow> error option"
  FindByID :: "TodoID \<Rightarrow> error + Todo"
  FindAll :: "Filters \<Rightarrow> error + Todo list"
  Update :: "Todo \<Rightarrow> error option"
  Delete :: "TodoID \<Rightarrow> error option"

record EventDispatcher =
  Dispatch :: "DomainEvent list \<Rightarrow> error option"

record TodoApplicationService =
  repository :: TodoRepository
  dispatcher :: EventDispatcher

text \<open>The calls a use case makes on its ports, in order, with their arguments.\<close>

datatype call =
    SaveCall Todo
  | FindByIDCall TodoID
  | FindAllCall Filters
  | UpdateCall Todo
  | DeleteCall TodoID
  | DispatchCall "DomainEvent list"

text \<open>
  What a use case leaves behind: the value or error it returns, the port calls it made,
  and the aggregate it worked on as it is in memory when the use case returns (\<open>None\<close>
  when none was built or loaded).
\<close>

record 'a outcome =
  result :: "error + 'a"
  calls :: "call list"
  aggregate :: "Todo option"

subsection \<open>Use cases\<close>

text \<open>
  The last three steps of CreateTodo, UpdateTodo, CompleteTodo and ReopenTodo are the same
  lines: dispatch the events, clear them, map the aggregate to the response.
\<close>

definition dispatchAndRespond ::
  "TodoApplicationService \<Rightarrow> call list \<Rightarrow> Todo \<Rightarrow> TodoResponse outcome"
where
  "dispatchAndRespond s cs todo =
     (case Dispatch (dispatcher s) (events todo) of
        Some err \<Rightarrow>
          \<lparr>result = Inl (Wrapped ''dispatching events'' err),
           calls = cs @ [DispatchCall (events todo)], aggregate = Some todo\<rparr>
      | None \<Rightarrow>
          let todo1 = ClearEvents todo
          in \<lparr>result = Inr (MapTodoToResponse todo1),
              calls = cs @ [DispatchCall (events todo)], aggregate = Some todo1\<rparr>)"


definition CreateTodo ::
  "(string \<Rightarrow> string) \<Rightarrow> TodoApplicationService \<Rightarrow> CreateTodoRequest \<Rightarrow> world
     \<Rightarrow> TodoResponse outcome"
where
  "CreateTodo unicodeLower s req w =
     (case NewTaskTitle (CreateTodoRequest.Title req) of
        Inl err \<Rightarrow>
          \<lparr>result = Inl (Wrapped ''invalid title'' err), calls = [], aggregate = None\<rparr>
      | Inr newTitle \<Rightarrow>
     (case NewPriority unicodeLower (CreateTodoRequest.Priority req) of
        Inl err \<Rightarrow>
          \<lparr>result = Inl (Wrapped ''invalid priority'' err), calls = [], aggregate = None\<rparr>
      | Inr newPriority \<Rightarrow>
     (case (case CreateTodoRequest.DueDate req of
              None \<Rightarrow> (Inr None, w)
            | Some d \<Rightarrow>
                (case NewDueDate (instant d) w of
                   (Inl err, w1) \<Rightarrow> (Inl err, w1)
                 | (Inr dd, w1) \<Rightarrow> (Inr (Some dd), w1))) of
        (Inl err, w1) \<Rightarrow>
          \<lparr>result = Inl (Wrapped ''invalid due date'' err), calls = [], aggregate = None\<rparr>
      | (Inr newDueDate, w1) \<Rightarrow>
          let (todo, w2) = NewTodo newTitle (CreateTodoRequest.Description req)
                             newPriority newDueDate w1
          in (case Save (repository s) todo of
                Some err \<Rightarrow>
                  \<lparr>result = Inl (Wrapped ''saving todo'' err),
                   calls = [SaveCall todo], aggregate = Some todo\<rparr>
              | None \<Rightarrow> dispatchAndRespond s [SaveCall todo] todo))))"


text \<open>The five "update ... if provided" blocks of UpdateTodo, each with its early returns.\<close>

definition updateTitleIfProvided ::
  "string option \<Rightarrow> Todo \<Rightarrow> world \<Rightarrow> error option \<times> Todo \<times> world"
where
  "updateTitleIfProvided reqTitle todo w =
     (case reqTitle of
        None \<Rightarrow> (None, todo, w)
      | Some str \<Rightarrow>
          (case NewTaskTitle str of
             Inl err \<Rightarrow> (Some (Wrapped ''invalid title'' err), todo, w)
           | Inr newTitle \<Rightarrow>
               (case UpdateTitle newTitle todo w of
                  (Some err, todo1, w1) \<Rightarrow> (Some (Wrapped ''updating title'' err), todo1, w1)
                | (None, todo1, w1) \<Rightarrow> (None, todo1, w1))))"











section \<open>The transport handler's priority mapping\<close>

text \<open>
  Modelled from the spec: the protobuf enum \<open>todov1.Priority\<close> is generated code that is
  not among the sources. A priority is one of low, medium, high and urgent, or
  unspecified; the values are named as the handler's \<open>switch\<close> names them, and
  \<open>Priority_other\<close> stands for any other number received on the wire.
\<close>

datatype protoPriority =
    Priority_PRIORITY_UNSPECIFIED
  | Priority_PRIORITY_LOW
  | Priority_PRIORITY_MEDIUM
  | Priority_PRIORITY_HIGH
  | Priority_PRIORITY_URGENT
  | Priority_other int

text \<open>
  \<open>mapPriorityFromProto\<close> of the Connect handler, which builds the \<open>Priority\<close> field of the
  request it passes to CreateTodo.
\<close>

fun mapPriorityFromProto :: "protoPriority \<Rightarrow> string" where
  "mapPriorityFromProto Priority_PRIORITY_LOW = ''low''"
| "mapPriorityFromProto Priority_PRIORITY_MEDIUM = ''medium''"
| "mapPriorityFromProto Priority_PRIORITY_HIGH = ''high''"
| "mapPriorityFromProto Priority_PRIORITY_URGENT = ''urgent''"
| "mapPriorityFromProto p = ''medium''"

section \<open>Fixtures of the test suites\<close>

text \<open>
  The helpers \<open>createValidTodo\<close> and \<open>createTodoWithStatus\<close> of the aggregate's tests
  (the latter sets the status, and the completion time of a completed todo, directly),
  a clock that starts at 1000 and advances by one at each reading, adapters that
  always succeed or always fail, and the requests of the examples. \<open>sampleUuidParses\<close>
  stands in for \<open>uuid.Parse\<close> in the examples: it accepts \<open>sampleID\<close>, a well-formed
  identifier of 36 bytes, and rejects the string "not-a-uuid", as the library does.
  \<open>sampleUnicodeLower\<close> stands in for the Unicode lower-case mapping; the priorities and
  statuses of the examples are ASCII strings, on which it is not consulted. The general
  statements hold for every clock, every adapter, every such parser and every such
  mapping.
\<close>

definition sampleWorld :: world where
  "sampleWorld = \<lparr>clock = (\<lambda>n. 1000 + int n), uuids = (\<lambda>n. ''todo-'' @ replicate n (CHR ''x''))\<rparr>"

definition createValidTodo :: "world \<Rightarrow> Todo \<times> world" where
  "createValidTodo w =
     (let newTitle = (case NewTaskTitle ''Test Todo'' of Inr ti \<Rightarrow> ti | Inl err \<Rightarrow> TaskTitle [])
      in NewTodo newTitle ''Test description'' PriorityMedium None w)"

definition createTodoWithStatus :: "TaskStatus \<Rightarrow> world \<Rightarrow> Todo \<times> world" where
  "createTodoWithStatus st w =
     (let (todo, w1) = createValidTodo w;
          todo1 = todo\<lparr>status := st\<rparr>;
          (todo2, w2) = (if st = StatusCompleted
                         then (let (now, w2) = timeNow w1 in (todo1\<lparr>completedAt := Some now\<rparr>, w2))
                         else (todo1, w1))
      in (ClearEvents todo2, w2))"

definition mockRepository :: "error option \<Rightarrow> Todo \<Rightarrow> TodoRepository" where
  "mockRepository failure stored =
     \<lparr>Save = (\<lambda>todo. failure),
      FindByID = (\<lambda>ident. case failure of Some err \<Rightarrow> Inl err | None \<Rightarrow> Inr stored),
      FindAll = (\<lambda>filters. case failure of Some err \<Rightarrow> Inl err | None \<Rightarrow> Inr [stored]),
      Update = (\<lambda>todo. failure),
      Delete = (\<lambda>ident. failure)\<rparr>"

definition mockDispatcher :: "error option \<Rightarrow> EventDispatcher" where
  "mockDispatcher failure = \<lparr>Dispatch = (\<lambda>evs. failure)\<rparr>"

definition mockService :: "error option \<Rightarrow> error option \<Rightarrow> Todo \<Rightarrow> TodoApplicationService" where
  "mockService repoFailure dispatchFailure stored =
     \<lparr>repository = mockRepository repoFailure stored,
      dispatcher = mockDispatcher dispatchFailure\<rparr>"




definition sampleUnicodeLower :: "string \<Rightarrow> string" where
  "sampleUnicodeLower str = str"




definition groceriesRequest :: "string \<Rightarrow> CreateTodoRequest" where
  "groceriesRequest p =
     \<lparr>CreateTodoRequest.Title = ''Buy groceries'',
      CreateTodoRequest.Description = ''Milk, eggs, bread'',
      CreateTodoRequest.Priority = p, CreateTodoRequest.DueDate = None\<rparr>"




section \<open>Validation failures\<close>





section \<open>Titles: white space and characters\<close>

text \<open>
  A string is trimmed when it neither starts nor ends with a white space rune.
\<close>

definition trimmed :: "string \<Rightarrow> bool" where
  "trimmed v = list_all (\<lambda>r. \<not> prefix r v \<and> \<not> suffix r v) spaceRunes"

text \<open>
  The characters of a string are its runes. In a well-formed UTF-8 string every rune is
  one byte that is not a continuation byte (a byte from 0x80 to 0xBF), followed by its
  continuation bytes, so the number of runes is the number of the other bytes.
\<close>

definition isContinuation :: "char \<Rightarrow> bool" where
  "isContinuation c \<longleftrightarrow> 128 \<le> (of_char c :: nat) \<and> (of_char c :: nat) < 192"

definition runeCount :: "string \<Rightarrow> nat" where
  "runeCount s = length (filter (\<lambda>c. \<not> isContinuation c) s)"

text \<open>A title of 67 euro signs (U+20AC, three bytes each): 67 characters, 201 bytes.\<close>

definition euroSign :: string where
  "euroSign = [CHR 0xE2, CHR 0x82, CHR 0xAC]"

definition euroTitle :: string where
  "euroTitle = concat (replicate 67 euroSign)"

section \<open>Properties\<close>

lemmas status_defs =
  StatusPending_def StatusInProgress_def StatusCompleted_def StatusCancelled_def

lemmas priority_defs =
  PriorityLow_def PriorityMedium_def PriorityHigh_def PriorityUrgent_def

lemmas event_defs =
  NewTodoCreatedEvent_def NewTodoUpdatedEvent_def NewTodoCompletedEvent_def
  NewTodoReopenedEvent_def NewTodoDeletedEvent_def

subsection \<open>The fixtures evaluated\<close>

lemma NewTaskTitle_Test_Todo: "NewTaskTitle ''Test Todo'' = Inr (TaskTitle ''Test Todo'')"
  by (simp add: NewTaskTitle_def TrimSpace_def spaceRunes_def trimLeftRunes.simps)

lemma createValidTodo_sample:
  "createValidTodo w =
     (\<lparr>Todo.id = uuids w 0, title = TaskTitle ''Test Todo'', description = ''Test description'',
       status = StatusPending, priority = PriorityMedium, dueDate = None,
       createdAt = clock w 0, updatedAt = clock w 0, completedAt = None,
       events = [EvTodoCreated \<lparr>aggregateID = uuids w 0, occurredAt = clock w 1,
                   TodoCreated.Title = ''Test Todo'', TodoCreated.Description = ''Test description'',
                   TodoCreated.Priority = PriorityMedium, TodoCreated.DueDate = None\<rparr>]\<rparr>,
      \<lparr>clock = (\<lambda>n. clock w (Suc (Suc n))), uuids = (\<lambda>n. uuids w (Suc n))\<rparr>)"
  by (simp add: createValidTodo_def NewTaskTitle_Test_Todo NewTodo_def NewTodoID_def
      uuidNewString_def timeNow_def NewTodoCreatedEvent_def addEvent_def)

lemma createTodoWithStatus_sample:
  "status (fst (createTodoWithStatus st w)) = st"
  "events (fst (createTodoWithStatus st w)) = []"
  "Todo.id (fst (createTodoWithStatus st w)) = uuids w 0"
  "completedAt (fst (createTodoWithStatus st w))
     = (if st = StatusCompleted then Some (clock w 2) else None)"
  by (simp_all add: createTodoWithStatus_def createValidTodo_sample ClearEvents_def timeNow_def
      Let_def numeral_2_eq_2 split: prod.splits)

subsection \<open>The transition table\<close>

text \<open>
  Claim C2. A completed task can move to no status other than pending; a cancelled task
  can move to pending and to in-progress but not to completed; a pending or an
  in-progress task can move to every status. The destination ranges over all values of
  the string type \<open>TaskStatus\<close>, the four named ones included.
\<close>

theorem CanTransitionTo_table:
  "(\<forall>to. to \<noteq> StatusPending \<longrightarrow> \<not> CanTransitionTo StatusCompleted to) \<and>
   CanTransitionTo StatusCancelled StatusPending \<and>
   \<not> CanTransitionTo StatusCancelled StatusCompleted \<and>
   CanTransitionTo StatusCancelled StatusInProgress \<and>
   (\<forall>to. CanTransitionTo StatusPending to) \<and>
   (\<forall>to. CanTransitionTo StatusInProgress to)"
  by (simp add: CanTransitionTo_def status_defs)

theorem CanTransitionTo_table_witness:
  "StatusInProgress \<noteq> StatusPending \<and> \<not> CanTransitionTo StatusCompleted StatusInProgress \<and>
   StatusCancelled \<noteq> StatusPending \<and> \<not> CanTransitionTo StatusCompleted StatusCancelled \<and>
   StatusCompleted \<noteq> StatusPending \<and> \<not> CanTransitionTo StatusCompleted StatusCompleted"
  using CanTransitionTo_table by (simp add: status_defs)

subsection \<open>Complete, Reopen and MarkInProgress\<close>

text \<open>
  Claim C5. \<open>Complete\<close> on a cancelled todo returns the error "cannot complete a
  cancelled task" and changes nothing; on a completed todo it returns no error and
  changes nothing (no event is added, no clock is read); on any other todo it sets the
  status to completed, sets the completion time and the update time to the clock
  reading, and appends exactly one \<open>TodoCompleted\<close> event that carries this completion
  time. A second call right after such a completion changes nothing.
\<close>

theorem Complete_contract:
  "(status t = StatusCancelled \<longrightarrow> Complete t w = (Some ErrCannotCompleteCancelled, t, w)) \<and>
   (status t = StatusCompleted \<longrightarrow> Complete t w = (None, t, w)) \<and>
   (status t \<noteq> StatusCancelled \<and> status t \<noteq> StatusCompleted \<longrightarrow>
      Complete t w =
        (None,
         t\<lparr>status := StatusCompleted, completedAt := Some (clock w 0), updatedAt := clock w 0,
           events := events t @
             [EvTodoCompleted \<lparr>aggregateID = Todo.id t, occurredAt = clock w 1,
                               CompletedAt = clock w 0\<rparr>]\<rparr>,
         w\<lparr>clock := (\<lambda>n. clock w (Suc (Suc n)))\<rparr>) \<and>
      (case Complete t w of (err, t1, w1) \<Rightarrow> Complete t1 w1 = (None, t1, w1)))"
  by (simp add: Complete_def IsCancelled_def IsCompleted_def status_defs timeNow_def
      NewTodoCompletedEvent_def addEvent_def Let_def)

theorem Complete_contract_witness:
  "status (fst (createTodoWithStatus StatusCancelled sampleWorld)) = StatusCancelled \<and>
   fst (Complete (fst (createTodoWithStatus StatusCancelled sampleWorld)) sampleWorld)
     = Some ErrCannotCompleteCancelled \<and>
   status (fst (createTodoWithStatus StatusCompleted sampleWorld)) = StatusCompleted \<and>
   Complete (fst (createTodoWithStatus StatusCompleted sampleWorld)) sampleWorld
     = (None, fst (createTodoWithStatus StatusCompleted sampleWorld), sampleWorld) \<and>
   status (fst (createTodoWithStatus StatusPending sampleWorld)) \<noteq> StatusCancelled \<and>
   status (fst (createTodoWithStatus StatusPending sampleWorld)) \<noteq> StatusCompleted \<and>
   status (fst (snd (Complete (fst (createTodoWithStatus StatusPending sampleWorld)) sampleWorld)))
     = StatusCompleted \<and>
   completedAt (fst (snd (Complete (fst (createTodoWithStatus StatusPending sampleWorld)) sampleWorld)))
     = Some 1000 \<and>
   map EventType
     (events (fst (snd (Complete (fst (createTodoWithStatus StatusPending sampleWorld)) sampleWorld))))
     = [''TodoCompleted'']"
  using Complete_contract [of "fst (createTodoWithStatus StatusCancelled sampleWorld)" sampleWorld]
    Complete_contract [of "fst (createTodoWithStatus StatusCompleted sampleWorld)" sampleWorld]
    Complete_contract [of "fst (createTodoWithStatus StatusPending sampleWorld)" sampleWorld]
  by (simp add: createTodoWithStatus_sample status_defs sampleWorld_def)

text \<open>
  Claim C6. \<open>Reopen\<close> on a todo that is neither completed nor cancelled returns no
  error and changes nothing; on a completed or cancelled todo it sets the status to
  pending, clears the completion time, sets the update time to the clock reading and
  appends exactly one \<open>TodoReopened\<close> event whose previous status is the status held
  before the call. Called after a \<open>Complete\<close> that completed the todo, the event's
  previous status is "completed".
\<close>

theorem Reopen_contract:
  "(status t \<noteq> StatusCompleted \<and> status t \<noteq> StatusCancelled \<longrightarrow> Reopen t w = (None, t, w)) \<and>
   (status t = StatusCompleted \<or> status t = StatusCancelled \<longrightarrow>
      Reopen t w =
        (None,
         t\<lparr>status := StatusPending, completedAt := None, updatedAt := clock w 0,
           events := events t @
             [EvTodoReopened \<lparr>aggregateID = Todo.id t, occurredAt = clock w 1,
                              PreviousStatus = status t\<rparr>]\<rparr>,
         w\<lparr>clock := (\<lambda>n. clock w (Suc (Suc n)))\<rparr>)) \<and>
   (status t \<noteq> StatusCancelled \<and> status t \<noteq> StatusCompleted \<longrightarrow>
      (case Complete t w of (err, t1, w1) \<Rightarrow>
         (case Reopen t1 w1 of (err2, t2, w2) \<Rightarrow>
            err2 = None \<and> status t2 = StatusPending \<and> completedAt t2 = None \<and>
            events t2 = events t1 @
              [EvTodoReopened \<lparr>aggregateID = Todo.id t, occurredAt = clock w1 1,
                               PreviousStatus = ''completed''\<rparr>])))"
  by (simp add: Reopen_def Complete_def IsCancelled_def IsCompleted_def status_defs timeNow_def
      NewTodoCompletedEvent_def NewTodoReopenedEvent_def addEvent_def Let_def)

theorem Reopen_contract_witness:
  "status (fst (createTodoWithStatus StatusInProgress sampleWorld)) \<noteq> StatusCompleted \<and>
   status (fst (createTodoWithStatus StatusInProgress sampleWorld)) \<noteq> StatusCancelled \<and>
   Reopen (fst (createTodoWithStatus StatusInProgress sampleWorld)) sampleWorld
     = (None, fst (createTodoWithStatus StatusInProgress sampleWorld), sampleWorld) \<and>
   status (fst (createTodoWithStatus StatusCancelled sampleWorld)) = StatusCancelled \<and>
   status (fst (snd (Reopen (fst (createTodoWithStatus StatusCancelled sampleWorld)) sampleWorld)))
     = StatusPending \<and>
   events (fst (snd (Reopen (fst (createTodoWithStatus StatusCancelled sampleWorld)) sampleWorld)))
     = [EvTodoReopened \<lparr>aggregateID = ''todo-'', occurredAt = 1001,
                         PreviousStatus = ''cancelled''\<rparr>] \<and>
   (case Complete (fst (createTodoWithStatus StatusPending sampleWorld)) sampleWorld of
      (err, t1, w1) \<Rightarrow>
        status (fst (snd (Reopen t1 w1))) = StatusPending \<and>
        completedAt (fst (snd (Reopen t1 w1))) = None \<and>
        map EventType (events (fst (snd (Reopen t1 w1)))) = [''TodoCompleted'', ''TodoReopened''])"
  using Reopen_contract [of "fst (createTodoWithStatus StatusInProgress sampleWorld)" sampleWorld]
    Reopen_contract [of "fst (createTodoWithStatus StatusCancelled sampleWorld)" sampleWorld]
    Reopen_contract [of "fst (createTodoWithStatus StatusPending sampleWorld)" sampleWorld]
  by (simp add: createTodoWithStatus_sample status_defs sampleWorld_def Complete_def Reopen_def
      IsCancelled_def IsCompleted_def timeNow_def NewTodoCompletedEvent_def
      NewTodoReopenedEvent_def addEvent_def Let_def)

text \<open>
  Claim C10. \<open>MarkInProgress\<close> returns the error "cannot modify a completed task"
  exactly when the todo is completed (and then changes nothing, and it returns no other
  error); on a todo already in progress it returns no error and changes nothing; on any
  other todo, a cancelled one included, it sets the status to in-progress, sets the
  update time to the clock reading and appends one \<open>TodoUpdated\<close> event.
\<close>

theorem MarkInProgress_contract:
  "(fst (MarkInProgress t w) = Some ErrCannotModifyCompleted \<longleftrightarrow> status t = StatusCompleted) \<and>
   (fst (MarkInProgress t w) \<noteq> None \<longleftrightarrow> status t = StatusCompleted) \<and>
   (status t = StatusCompleted \<longrightarrow> MarkInProgress t w = (Some ErrCannotModifyCompleted, t, w)) \<and>
   (status t = StatusInProgress \<longrightarrow> MarkInProgress t w = (None, t, w)) \<and>
   (status t \<noteq> StatusCompleted \<and> status t \<noteq> StatusInProgress \<longrightarrow>
      MarkInProgress t w =
        (None,
         t\<lparr>status := StatusInProgress, updatedAt := clock w 0,
           events := events t @
             [EvTodoUpdated \<lparr>aggregateID = Todo.id t, occurredAt = clock w 1,
                TodoUpdated.Title = None, TodoUpdated.Description = None,
                TodoUpdated.Priority = None, TodoUpdated.DueDate = None,
                TodoUpdated.Status = None\<rparr>]\<rparr>,
         w\<lparr>clock := (\<lambda>n. clock w (Suc (Suc n)))\<rparr>)) \<and>
   (status t = StatusCancelled \<longrightarrow>
      fst (MarkInProgress t w) = None \<and>
      status (fst (snd (MarkInProgress t w))) = StatusInProgress)"
  by (simp add: MarkInProgress_def IsCompleted_def status_defs timeNow_def
      NewTodoUpdatedEvent_def addEvent_def Let_def)

theorem MarkInProgress_contract_witness:
  "status (fst (createTodoWithStatus StatusCompleted sampleWorld)) = StatusCompleted \<and>
   MarkInProgress (fst (createTodoWithStatus StatusCompleted sampleWorld)) sampleWorld
     = (Some ErrCannotModifyCompleted, fst (createTodoWithStatus StatusCompleted sampleWorld),
        sampleWorld) \<and>
   status (fst (createTodoWithStatus StatusInProgress sampleWorld)) = StatusInProgress \<and>
   MarkInProgress (fst (createTodoWithStatus StatusInProgress sampleWorld)) sampleWorld
     = (None, fst (createTodoWithStatus StatusInProgress sampleWorld), sampleWorld) \<and>
   status (fst (createTodoWithStatus StatusCancelled sampleWorld)) = StatusCancelled \<and>
   fst (MarkInProgress (fst (createTodoWithStatus StatusCancelled sampleWorld)) sampleWorld) = None \<and>
   status (fst (snd (MarkInProgress (fst (createTodoWithStatus StatusCancelled sampleWorld))
                       sampleWorld))) = StatusInProgress \<and>
   map EventType
     (events (fst (snd (MarkInProgress (fst (createTodoWithStatus StatusCancelled sampleWorld))
                          sampleWorld)))) = [''TodoUpdated'']"
  using MarkInProgress_contract [of "fst (createTodoWithStatus StatusCompleted sampleWorld)" sampleWorld]
    MarkInProgress_contract [of "fst (createTodoWithStatus StatusInProgress sampleWorld)" sampleWorld]
    MarkInProgress_contract [of "fst (createTodoWithStatus StatusCancelled sampleWorld)" sampleWorld]
  by (simp add: createTodoWithStatus_sample status_defs sampleWorld_def)

subsection \<open>Due dates\<close>

text \<open>
  Claim C9. With \<open>now\<close> the clock reading \<open>NewDueDate\<close> takes, construction succeeds
  exactly when the value is strictly after \<open>now\<close>, and fails with the invalid-due-date
  error otherwise: a value equal to \<open>now\<close> is rejected, \<open>now\<close> plus one second is
  accepted.
\<close>

theorem NewDueDate_strictly_future:
  "fst (NewDueDate date w)
     = (if clock w 0 < date then Inr (DueDate.DueDate date) else Inl ErrInvalidDueDate) \<and>
   fst (NewDueDate (clock w 0) w) = Inl ErrInvalidDueDate \<and>
   fst (NewDueDate (clock w 0 + second) w) = Inr (DueDate.DueDate (clock w 0 + second))"
  by (simp add: NewDueDate_def timeNow_def second_def)

subsection \<open>Titles\<close>

text \<open>
  \<open>TrimSpace\<close> removes the white space runes around a trimmed string, and every string
  is a trimmed string between two runs of white space runes.
\<close>

lemma leadingRune_spaceRunes:
  "r \<in> set spaceRunes \<Longrightarrow> leadingRune spaceRunes (r @ s) = length r"
  unfolding spaceRunes_def by (elim disjE | simp)+

lemma spaceRunes_nonempty: "r \<in> set spaceRunes \<Longrightarrow> r \<noteq> []"
  unfolding spaceRunes_def by auto

lemma leadingRune_Nil: "leadingRune spaceRunes [] = 0" "leadingRune (map rev spaceRunes) [] = 0"
  by (simp_all add: spaceRunes_def)

lemma trimLeftRunes_Nil: "trimLeftRunes spaceRunes [] = []" "trimLeftRunes (map rev spaceRunes) [] = []"
  by (simp_all add: trimLeftRunes.simps leadingRune_Nil)

lemma trimLeftRunes_spaces:
  "set rs \<subseteq> set spaceRunes \<Longrightarrow> trimLeftRunes spaceRunes (concat rs) = []"
proof (induction rs)
  case Nil
  show ?case by (simp add: trimLeftRunes_Nil)
next
  case (Cons r rs)
  then have r: "r \<in> set spaceRunes" and rs: "set rs \<subseteq> set spaceRunes" by simp_all
  have len: "leadingRune spaceRunes (r @ concat rs) = length r"
    using r by (rule leadingRune_spaceRunes)
  have "r \<noteq> []" using r by (rule spaceRunes_nonempty)
  then have "trimLeftRunes spaceRunes (r @ concat rs) = trimLeftRunes spaceRunes (concat rs)"
    by (subst trimLeftRunes.simps) (simp add: len)
  with Cons.IH [OF rs] show ?case by simp
qed

lemma TrimSpace_spaces: "set rs \<subseteq> set spaceRunes \<Longrightarrow> TrimSpace (concat rs) = []"
  by (simp add: TrimSpace_def trimLeftRunes_spaces trimLeftRunes_Nil)

lemma trimLeftRunes_suffix: "suffix (trimLeftRunes rs s) s"
proof (induction rs s rule: trimLeftRunes.induct)
  case (1 rs s)
  show ?case
  proof (cases "leadingRune rs s = 0")
    case True
    then show ?thesis by (subst trimLeftRunes.simps) simp
  next
    case False
    with 1 have "suffix (trimLeftRunes rs (drop (leadingRune rs s) s)) (drop (leadingRune rs s) s)"
      by simp
    then have "suffix (trimLeftRunes rs (drop (leadingRune rs s) s)) s"
      by (rule suffix_order.trans) (rule suffix_drop)
    with False show ?thesis by (subst trimLeftRunes.simps) simp
  qed
qed

lemma trimLeftRunes_no_leading: "leadingRune rs (trimLeftRunes rs s) = 0"
proof (induction rs s rule: trimLeftRunes.induct)
  case (1 rs s)
  show ?case
  proof (cases "leadingRune rs s = 0")
    case True
    then show ?thesis by (subst trimLeftRunes.simps) simp
  next
    case False
    with 1 show ?thesis by (subst trimLeftRunes.simps) simp
  qed
qed

lemma TrimSpace_sublist: "\<exists>before after. s = before @ TrimSpace s @ after"
proof -
  obtain a where a: "s = a @ trimLeftRunes spaceRunes s"
    using trimLeftRunes_suffix [of spaceRunes s] by (auto simp: suffix_def)
  obtain b where b: "rev (trimLeftRunes spaceRunes s)
      = b @ trimLeftRunes (map rev spaceRunes) (rev (trimLeftRunes spaceRunes s))"
    using trimLeftRunes_suffix [of "map rev spaceRunes" "rev (trimLeftRunes spaceRunes s)"]
    by (auto simp: suffix_def)
  from b have "trimLeftRunes spaceRunes s = TrimSpace s @ rev b"
    unfolding TrimSpace_def by (metis rev_append rev_rev_ident)
  with a have "s = a @ TrimSpace s @ rev b" by simp
  then show ?thesis by blast
qed


lemma leadingRune_zero:
  assumes "\<forall>r \<in> set rs. r \<noteq> []"
  shows "leadingRune rs s = 0 \<longleftrightarrow> (\<forall>r \<in> set rs. \<not> prefix r s)"
  using assms by (induction rs) auto

lemma TrimSpace_trimmed:
  "(\<forall>r \<in> set spaceRunes. \<not> prefix r (TrimSpace s)) \<and>
   (\<forall>r \<in> set spaceRunes. \<not> suffix r (TrimSpace s))"
proof
  let ?front = "trimLeftRunes spaceRunes s"
  have ne: "\<forall>r \<in> set spaceRunes. r \<noteq> []" by (simp add: spaceRunes_nonempty)
  then have ne': "\<forall>r \<in> set (map rev spaceRunes). r \<noteq> []" by simp
  have "suffix (rev (TrimSpace s)) (rev ?front)"
    unfolding TrimSpace_def by (simp add: trimLeftRunes_suffix)
  then have pre: "prefix (TrimSpace s) ?front"
    by (simp add: suffix_to_prefix)
  have "\<forall>r \<in> set spaceRunes. \<not> prefix r ?front"
    using leadingRune_zero [OF ne, of ?front] trimLeftRunes_no_leading [of spaceRunes s] by simp
  with pre show "\<forall>r \<in> set spaceRunes. \<not> prefix r (TrimSpace s)"
    by (meson prefix_order.trans)
  have "leadingRune (map rev spaceRunes) (rev (TrimSpace s)) = 0"
    unfolding TrimSpace_def by (simp add: trimLeftRunes_no_leading)
  then have "\<forall>r \<in> set (map rev spaceRunes). \<not> prefix r (rev (TrimSpace s))"
    using leadingRune_zero [OF ne'] by blast
  then show "\<forall>r \<in> set spaceRunes. \<not> suffix r (TrimSpace s)"
    by (simp add: suffix_to_prefix)
qed


lemma leadingRune_rev_spaceRunes:
  "r \<in> set spaceRunes \<Longrightarrow> leadingRune (map rev spaceRunes) (rev r @ s) = length r"
  unfolding spaceRunes_def by (elim disjE | simp)+

lemma trimLeftRunes_id: "leadingRune rs s = 0 \<Longrightarrow> trimLeftRunes rs s = s"
  by (subst trimLeftRunes.simps) simp

lemma trimLeftRunes_strip:
  "set pre \<subseteq> set spaceRunes \<Longrightarrow>
     trimLeftRunes spaceRunes (concat pre @ x) = trimLeftRunes spaceRunes x"
proof (induction pre)
  case Nil
  show ?case by simp
next
  case (Cons r pre)
  then have r: "r \<in> set spaceRunes" and pre: "set pre \<subseteq> set spaceRunes" by simp_all
  have len: "leadingRune spaceRunes (r @ concat pre @ x) = length r"
    using r by (rule leadingRune_spaceRunes)
  have "r \<noteq> []" using r by (rule spaceRunes_nonempty)
  then have "trimLeftRunes spaceRunes (r @ concat pre @ x)
      = trimLeftRunes spaceRunes (concat pre @ x)"
    by (subst trimLeftRunes.simps) (simp add: len)
  with Cons.IH [OF pre] show ?case by simp
qed

lemma trimLeftRunes_rev_strip:
  "set post \<subseteq> set spaceRunes \<Longrightarrow>
     trimLeftRunes (map rev spaceRunes) (rev (concat post) @ x)
       = trimLeftRunes (map rev spaceRunes) x"
proof (induction post rule: rev_induct)
  case Nil
  show ?case by simp
next
  case (snoc r post)
  then have r: "r \<in> set spaceRunes" and post: "set post \<subseteq> set spaceRunes" by simp_all
  have len: "leadingRune (map rev spaceRunes) (rev r @ rev (concat post) @ x) = length r"
    using r by (rule leadingRune_rev_spaceRunes)
  have "r \<noteq> []" using r by (rule spaceRunes_nonempty)
  then have "trimLeftRunes (map rev spaceRunes) (rev r @ rev (concat post) @ x)
      = trimLeftRunes (map rev spaceRunes) (rev (concat post) @ x)"
    by (subst trimLeftRunes.simps) (simp add: len)
  with snoc.IH [OF post] show ?case by simp
qed

lemma spaceRunes_shape:
  "r \<in> set spaceRunes \<Longrightarrow>
     \<exists>c cs. r = c # cs \<and> \<not> isContinuation c \<and> (\<forall>x \<in> set cs. isContinuation x)"
  unfolding spaceRunes_def isContinuation_def by (elim disjE | simp)+

lemma concat_spaces_head:
  assumes "set post \<subseteq> set spaceRunes" and "concat post \<noteq> []"
  shows "\<not> isContinuation (hd (concat post))"
proof (cases post)
  case Nil
  with assms show ?thesis by simp
next
  case (Cons r rest)
  with assms have "r \<in> set spaceRunes" by simp
  then obtain c cs where "r = c # cs" "\<not> isContinuation c" using spaceRunes_shape by blast
  with Cons show ?thesis by simp
qed

lemma rune_prefix_of_extension:
  assumes r: "r \<in> set spaceRunes" and pre: "prefix r (v @ concat post)"
    and v: "v \<noteq> []" and post: "set post \<subseteq> set spaceRunes"
  shows "prefix r v"
proof (rule ccontr)
  assume not: "\<not> prefix r v"
  from pre not obtain us where us: "r = v @ us" "prefix us (concat post)"
    by (auto simp add: prefix_append)
  with not have "us \<noteq> []" by auto
  obtain c cs where shape: "r = c # cs" "\<forall>x \<in> set cs. isContinuation x"
    using spaceRunes_shape [OF r] by blast
  from v obtain a v' where "v = a # v'" by (cases v) auto
  with us(1) shape(1) have "cs = v' @ us" by simp
  with \<open>us \<noteq> []\<close> shape(2) have cont: "isContinuation (hd us)" by (cases us) auto
  from us(2) obtain zs where zs: "concat post = us @ zs" by (auto simp add: prefix_def)
  with \<open>us \<noteq> []\<close> have "concat post \<noteq> []" by (cases us) simp_all
  moreover from zs \<open>us \<noteq> []\<close> have "hd (concat post) = hd us" by (cases us) simp_all
  ultimately show False using concat_spaces_head [OF post] cont by simp
qed

lemma trimmed_iff:
  "trimmed v \<longleftrightarrow> (\<forall>r \<in> set spaceRunes. \<not> prefix r v \<and> \<not> suffix r v)"
  by (simp add: trimmed_def list_all_iff)

lemma TrimSpace_of_trimmed:
  assumes pre: "set pre \<subseteq> set spaceRunes" and post: "set post \<subseteq> set spaceRunes"
    and v: "trimmed v"
  shows "TrimSpace (concat pre @ v @ concat post) = v"
proof (cases "v = []")
  case True
  have "set (pre @ post) \<subseteq> set spaceRunes" using pre post by simp
  then have "TrimSpace (concat (pre @ post)) = []" by (rule TrimSpace_spaces)
  with True show ?thesis by simp
next
  case False
  have ne: "\<forall>r \<in> set spaceRunes. r \<noteq> []" by (simp add: spaceRunes_nonempty)
  then have ne': "\<forall>r \<in> set (map rev spaceRunes). r \<noteq> []" by simp
  have "\<forall>r \<in> set spaceRunes. \<not> prefix r (v @ concat post)"
    using v rune_prefix_of_extension [OF _ _ False post] by (auto simp add: trimmed_iff)
  then have "leadingRune spaceRunes (v @ concat post) = 0"
    using leadingRune_zero [OF ne] by simp
  then have front: "trimLeftRunes spaceRunes (concat pre @ v @ concat post) = v @ concat post"
    by (simp add: trimLeftRunes_strip [OF pre] trimLeftRunes_id)
  have "\<forall>r \<in> set (map rev spaceRunes). \<not> prefix r (rev v)"
    using v by (auto simp add: trimmed_iff suffix_to_prefix)
  then have "leadingRune (map rev spaceRunes) (rev v) = 0"
    using leadingRune_zero [OF ne'] by simp
  then have "trimLeftRunes (map rev spaceRunes) (rev (concat post) @ rev v) = rev v"
    by (simp add: trimLeftRunes_rev_strip [OF post] trimLeftRunes_id)
  with front show ?thesis by (simp add: TrimSpace_def)
qed

lemma leadingRune_pos:
  "leadingRune rs s \<noteq> 0 \<Longrightarrow> \<exists>r \<in> set rs. prefix r s \<and> length r = leadingRune rs s"
  by (induction rs) (auto split: if_splits)

lemma trimLeftRunes_decomposes:
  "\<exists>pre. set pre \<subseteq> set rs \<and> s = concat pre @ trimLeftRunes rs s"
proof (induction rs s rule: trimLeftRunes.induct)
  case (1 rs s)
  show ?case
  proof (cases "leadingRune rs s = 0")
    case True
    then have "trimLeftRunes rs s = s" by (rule trimLeftRunes_id)
    then have "set [] \<subseteq> set rs \<and> s = concat [] @ trimLeftRunes rs s" by simp
    then show ?thesis by blast
  next
    case False
    then obtain r where r: "r \<in> set rs" "prefix r s" "length r = leadingRune rs s"
      using leadingRune_pos by blast
    then have split: "s = r @ drop (leadingRune rs s) s"
      by (auto simp add: prefix_def)
    from 1 [OF False] obtain pre where pre: "set pre \<subseteq> set rs"
      "drop (leadingRune rs s) s = concat pre @ trimLeftRunes rs (drop (leadingRune rs s) s)"
      by blast
    have step: "trimLeftRunes rs s = trimLeftRunes rs (drop (leadingRune rs s) s)"
      using False by (subst trimLeftRunes.simps) simp
    have "s = concat (r # pre) @ trimLeftRunes rs s"
      using split pre(2) step by simp
    moreover have "set (r # pre) \<subseteq> set rs" using r(1) pre(1) by simp
    ultimately show ?thesis by blast
  qed
qed

lemma TrimSpace_decomposes:
  "\<exists>pre post. set pre \<subseteq> set spaceRunes \<and> set post \<subseteq> set spaceRunes \<and>
     str = concat pre @ TrimSpace str @ concat post \<and> trimmed (TrimSpace str)"
proof -
  let ?front = "trimLeftRunes spaceRunes str"
  obtain pre where pre: "set pre \<subseteq> set spaceRunes" "str = concat pre @ ?front"
    using trimLeftRunes_decomposes [of spaceRunes str] by blast
  obtain rpost where rpost: "set rpost \<subseteq> set (map rev spaceRunes)"
    "rev ?front = concat rpost @ trimLeftRunes (map rev spaceRunes) (rev ?front)"
    using trimLeftRunes_decomposes [of "map rev spaceRunes" "rev ?front"] by blast
  let ?post = "map rev (rev rpost)"
  have "rev (rev ?front) = rev (concat rpost @ rev (TrimSpace str))"
    using rpost(2) by (simp add: TrimSpace_def)
  then have "?front = TrimSpace str @ rev (concat rpost)" by simp
  moreover have "rev (concat rpost) = concat ?post" by (simp add: rev_concat)
  ultimately have "str = concat pre @ TrimSpace str @ concat ?post" using pre(2) by simp
  moreover have "set ?post \<subseteq> set spaceRunes" using rpost(1) by auto
  moreover have "trimmed (TrimSpace str)" using TrimSpace_trimmed [of str] by (simp add: trimmed_iff)
  ultimately show ?thesis using pre(1) by blast
qed

lemma NewTaskTitle_trims:
  assumes "set pre \<subseteq> set spaceRunes" and "set post \<subseteq> set spaceRunes" and "trimmed v"
  shows "NewTaskTitle (concat pre @ v @ concat post) =
     (if 1 \<le> length v \<and> length v \<le> 200 then Inr (TaskTitle v)
      else Inl (ValidationError ''title''
                  (if v = [] then ''cannot be empty'' else ''cannot exceed 200 characters'')))"
  by (simp add: NewTaskTitle_def NewValidationError_def TrimSpace_of_trimmed [OF assms] Suc_le_eq)


lemma euroTitle_unfold:
  "concat (replicate (Suc n) euroSign) = euroSign @ concat (replicate n euroSign)"
  "concat (replicate (Suc n) euroSign) = concat (replicate n euroSign) @ euroSign"
proof -
  show "concat (replicate (Suc n) euroSign) = euroSign @ concat (replicate n euroSign)" by simp
  have "replicate (Suc n) euroSign = replicate n euroSign @ [euroSign]"
    by (simp add: replicate_append_same)
  then show "concat (replicate (Suc n) euroSign) = concat (replicate n euroSign) @ euroSign"
    by (simp only: concat_append) simp
qed

lemma length_euros: "length (concat (replicate n euroSign)) = 3 * n"
  by (induction n) (simp_all add: euroSign_def)

lemma runeCount_euros: "runeCount (concat (replicate n euroSign)) = n"
  by (induction n) (simp_all add: runeCount_def euroSign_def isContinuation_def)

lemma trimmed_euros: "trimmed (concat (replicate (Suc n) euroSign))"
proof -
  have "\<not> prefix r (euroSign @ x)" if "r \<in> set spaceRunes" for r x
    using that unfolding spaceRunes_def euroSign_def by (elim disjE | simp)+
  moreover have "\<not> prefix (rev r) (rev euroSign @ x)" if "r \<in> set spaceRunes" for r x
    using that unfolding spaceRunes_def euroSign_def by (elim disjE | simp)+
  then have "\<not> suffix r (x @ euroSign)" if "r \<in> set spaceRunes" for r x
    using that by (simp add: suffix_to_prefix)
  ultimately show ?thesis
    unfolding trimmed_iff by (metis euroTitle_unfold)
qed


lemma failing_title_builds_no_aggregate:
  assumes "NewTaskTitle str = Inl err"
  shows "CreateTodoRequest.Title req = str \<Longrightarrow>
           CreateTodo unicodeLower s req w =
             \<lparr>result = Inl (Wrapped ''invalid title'' err), calls = [], aggregate = None\<rparr>"
    and "updateTitleIfProvided (Some str) todo w = (Some (Wrapped ''invalid title'' err), todo, w)"
  using assms by (simp_all add: CreateTodo_def updateTitleIfProvided_def)

text \<open>
  Claim C8. \<open>NewTaskTitle\<close> measures the trimmed title with \<open>len\<close>, which counts bytes,
  where its error message, the sentinel error and the documentation speak of
  characters. The title of 67 euro signs has 67 characters, within the bound of 200,
  and is rejected as longer than 200 characters, because it has 201 bytes. (The lemmas
  above show the rest of the contract: every input is a run of white space runes, a
  trimmed string and a run of white space runes, and \<open>NewTaskTitle\<close> then returns the
  trimmed string as the title when it has between 1 and 200 bytes, the validation
  error of the field "title" otherwise; an input of white space only is empty after
  trimming.)
\<close>

theorem NewTaskTitle_counts_bytes:
  "runeCount euroTitle = 67 \<and> length euroTitle = 201 \<and>
   NewTaskTitle euroTitle = Inl (ValidationError ''title'' ''cannot exceed 200 characters'')"
proof -
  have t: "trimmed euroTitle"
    using trimmed_euros [of 66] by (simp add: euroTitle_def)
  have len: "length euroTitle = 201" by (simp add: euroTitle_def length_euros)
  have "NewTaskTitle (concat [] @ euroTitle @ concat []) =
     (if 1 \<le> length euroTitle \<and> length euroTitle \<le> 200 then Inr (TaskTitle euroTitle)
      else Inl (ValidationError ''title''
                  (if euroTitle = [] then ''cannot be empty''
                   else ''cannot exceed 200 characters'')))"
    by (rule NewTaskTitle_trims) (simp_all add: t)
  moreover have "euroTitle \<noteq> []" using len by auto
  ultimately have res: "NewTaskTitle euroTitle
      = Inl (ValidationError ''title'' ''cannot exceed 200 characters'')"
    using len by simp
  have "runeCount euroTitle = 67" by (simp add: euroTitle_def runeCount_euros)
  with len res show ?thesis by (intro conjI)
qed

subsection \<open>Dispatching after persistence\<close>




lemma NewPriority_medium: "NewPriority unicodeLower ''medium'' = Inr PriorityMedium"
  by (simp add: NewPriority_def ToLower_def isASCII_def lowerByte_def priority_defs)


lemma mockService_simps:
  "Save (repository (mockService rf df t)) = (\<lambda>todo. rf)"
  "Update (repository (mockService rf df t)) = (\<lambda>todo. rf)"
  "Delete (repository (mockService rf df t)) = (\<lambda>ident. rf)"
  "FindByID (repository (mockService None df t)) = (\<lambda>ident. Inr t)"
  "FindByID (repository (mockService (Some e) df t)) = (\<lambda>ident. Inl e)"
  "Dispatch (dispatcher (mockService rf df t)) = (\<lambda>evs. df)"
  by (simp_all add: mockService_def mockRepository_def mockDispatcher_def)







subsection \<open>Validation and port calls\<close>





















lemma NewPriority_error: "NewPriority unicodeLower str = Inl err \<Longrightarrow> err = ErrInvalidPriority"
  by (auto simp add: NewPriority_def Let_def split: if_splits)













subsection \<open>The default priority\<close>

lemma NewTaskTitle_Buy_groceries:
  "NewTaskTitle ''Buy groceries'' = Inr (TaskTitle ''Buy groceries'')"
  by (simp add: NewTaskTitle_def TrimSpace_def spaceRunes_def trimLeftRunes.simps)

lemma NewPriority_empty: "NewPriority unicodeLower [] = Inl ErrInvalidPriority"
  by (simp add: NewPriority_def ToLower_def isASCII_def priority_defs)

lemma NewPriority_dotted_capital_I:
  "unicodeLower [CHR ''H'', CHR 0xC4, CHR 0xB0, CHR ''G'', CHR ''H''] = ''high'' \<Longrightarrow>
     NewPriority unicodeLower [CHR ''H'', CHR 0xC4, CHR 0xB0, CHR ''G'', CHR ''H''] = Inr PriorityHigh"
  by (simp add: NewPriority_def ToLower_def isASCII_def priority_defs)

text \<open>
  The claim as stated fails: CreateTodo with the title "Buy groceries" and an empty
  priority string returns the invalid-priority error, with no port call and no todo.
\<close>

theorem CreateTodo_empty_priority_rejected:
  "CreateTodo sampleUnicodeLower (mockService None None (fst (createValidTodo sampleWorld))) (groceriesRequest [])
     sampleWorld
     = \<lparr>result = Inl (Wrapped ''invalid priority'' ErrInvalidPriority), calls = [],
        aggregate = None\<rparr>"
  by (simp add: CreateTodo_def groceriesRequest_def NewTaskTitle_Buy_groceries NewPriority_empty)

lemma NewPriority_value:
  "NewPriority unicodeLower str = Inr p \<Longrightarrow>
     p = ToLower unicodeLower str \<and>
     (p = PriorityLow \<or> p = PriorityMedium \<or> p = PriorityHigh \<or> p = PriorityUrgent)"
  by (auto simp add: NewPriority_def Let_def split: if_splits)

lemma NewTodo_priority: "priority (fst (NewTodo ti d p dd w)) = p"
  by (simp add: NewTodo_def NewTodoID_def uuidNewString_def timeNow_def NewTodoCreatedEvent_def
      addEvent_def Let_def split_def)

lemma dispatchAndRespond_response:
  "result (dispatchAndRespond s cs todo) = Inr resp \<Longrightarrow> TodoResponse.Priority resp = priority todo"
  by (auto simp add: dispatchAndRespond_def MapTodoToResponse_def ClearEvents_def Let_def
      split: option.splits)

lemma CreateTodo_response_priority:
  assumes "result (CreateTodo unicodeLower s creq w) = Inr resp"
  shows "NewPriority unicodeLower (CreateTodoRequest.Priority creq) = Inr (TodoResponse.Priority resp)"
  using assms
  by (auto simp add: CreateTodo_def Let_def split_def NewTodo_priority
      dest!: dispatchAndRespond_response split: sum.splits prod.splits option.splits)

lemma CreateTodo_invalid_priority:
  assumes "isl (NewPriority unicodeLower (CreateTodoRequest.Priority creq))"
  shows "isl (result (CreateTodo unicodeLower s creq w)) \<and> calls (CreateTodo unicodeLower s creq w) = [] \<and>
         aggregate (CreateTodo unicodeLower s creq w) = None \<and>
         (\<forall>ti. NewTaskTitle (CreateTodoRequest.Title creq) = Inr ti \<longrightarrow>
            result (CreateTodo unicodeLower s creq w) = Inl (Wrapped ''invalid priority'' ErrInvalidPriority))"
  using assms
  by (auto simp add: CreateTodo_def dest: NewPriority_error split: sum.splits)


lemma NewPriority_mapPriorityFromProto:
  "NewPriority unicodeLower (mapPriorityFromProto p) = Inr (mapPriorityFromProto p)"
  by (cases p) (simp_all add: NewPriority_def ToLower_def isASCII_def lowerByte_def priority_defs)

text \<open>
  Claim C3, amended. The default priority is medium (\<open>DefaultPriority\<close>), and it is the
  transport handler that applies it: \<open>mapPriorityFromProto\<close> turns an unspecified
  priority into "medium", and never produces a string that \<open>NewPriority\<close> rejects.
  CreateTodo itself applies no default. With an empty priority string it fails (with
  the invalid-priority error when the title is valid), calls no port and builds no
  todo; when it succeeds, the priority of the response is the one \<open>NewPriority\<close> parsed
  from the request, so it is medium for the request the handler builds from an
  unspecified priority.
\<close>

theorem priority_default_applied_by_handler:
  "DefaultPriority = PriorityMedium \<and>
   mapPriorityFromProto Priority_PRIORITY_UNSPECIFIED = DefaultPriority \<and>
   (\<forall>p. NewPriority unicodeLower (mapPriorityFromProto p) = Inr (mapPriorityFromProto p)) \<and>
   (CreateTodoRequest.Priority creq = [] \<longrightarrow>
      isl (result (CreateTodo unicodeLower s creq w)) \<and> calls (CreateTodo unicodeLower s creq w) = [] \<and>
      aggregate (CreateTodo unicodeLower s creq w) = None \<and>
      (\<forall>ti. NewTaskTitle (CreateTodoRequest.Title creq) = Inr ti \<longrightarrow>
         result (CreateTodo unicodeLower s creq w) = Inl (Wrapped ''invalid priority'' ErrInvalidPriority))) \<and>
   (\<forall>resp. result (CreateTodo unicodeLower s creq w) = Inr resp \<longrightarrow>
      NewPriority unicodeLower (CreateTodoRequest.Priority creq) = Inr (TodoResponse.Priority resp)) \<and>
   (\<forall>resp. CreateTodoRequest.Priority creq = mapPriorityFromProto Priority_PRIORITY_UNSPECIFIED \<and>
      result (CreateTodo unicodeLower s creq w) = Inr resp \<longrightarrow>
      TodoResponse.Priority resp = PriorityMedium)"
proof (intro conjI allI impI)
  show "DefaultPriority = PriorityMedium" by (simp add: DefaultPriority_def)
  show "mapPriorityFromProto Priority_PRIORITY_UNSPECIFIED = DefaultPriority"
    by (simp add: DefaultPriority_def PriorityMedium_def)
  show "NewPriority unicodeLower (mapPriorityFromProto p) = Inr (mapPriorityFromProto p)" for p
    by (rule NewPriority_mapPriorityFromProto)
next
  assume "CreateTodoRequest.Priority creq = []"
  then have bad: "isl (NewPriority unicodeLower (CreateTodoRequest.Priority creq))"
    by (simp add: NewPriority_empty)
  note r = CreateTodo_invalid_priority [OF bad, where s = s and w = w]
  from r show "isl (result (CreateTodo unicodeLower s creq w))" by blast
  from r show "calls (CreateTodo unicodeLower s creq w) = []" by blast
  from r show "aggregate (CreateTodo unicodeLower s creq w) = None" by blast
  from r show "result (CreateTodo unicodeLower s creq w) = Inl (Wrapped ''invalid priority'' ErrInvalidPriority)"
    if "NewTaskTitle (CreateTodoRequest.Title creq) = Inr ti" for ti
    using that by blast
next
  fix resp
  assume "result (CreateTodo unicodeLower s creq w) = Inr resp"
  then show "NewPriority unicodeLower (CreateTodoRequest.Priority creq) = Inr (TodoResponse.Priority resp)"
    by (rule CreateTodo_response_priority)
next
  fix resp
  assume a: "CreateTodoRequest.Priority creq = mapPriorityFromProto Priority_PRIORITY_UNSPECIFIED \<and>
      result (CreateTodo unicodeLower s creq w) = Inr resp"
  then have "NewPriority unicodeLower (CreateTodoRequest.Priority creq) = Inr (TodoResponse.Priority resp)"
    by (blast intro: CreateTodo_response_priority)
  with a have "Inr (TodoResponse.Priority resp)
      = (Inr (mapPriorityFromProto Priority_PRIORITY_UNSPECIFIED) :: error + Priority)"
    using NewPriority_mapPriorityFromProto [of unicodeLower Priority_PRIORITY_UNSPECIFIED] by simp
  then show "TodoResponse.Priority resp = PriorityMedium"
    by (simp add: PriorityMedium_def)
qed

lemma CreateTodo_groceries_medium:
  "CreateTodo sampleUnicodeLower (mockService None None t) (groceriesRequest ''medium'') sampleWorld =
     \<lparr>result = Inr \<lparr>ID = ''todo-'', TodoResponse.Title = ''Buy groceries'',
                     TodoResponse.Description = ''Milk, eggs, bread'',
                     TodoResponse.Status = ''pending'', TodoResponse.Priority = ''medium'',
                     TodoResponse.DueDate = None, CreatedAt = 1000, UpdatedAt = 1000\<rparr>,
      calls = [SaveCall (fst (NewTodo (TaskTitle ''Buy groceries'') ''Milk, eggs, bread''
                                 PriorityMedium None sampleWorld)),
               DispatchCall (events (fst (NewTodo (TaskTitle ''Buy groceries'') ''Milk, eggs, bread''
                                 PriorityMedium None sampleWorld)))],
      aggregate = Some (ClearEvents (fst (NewTodo (TaskTitle ''Buy groceries'') ''Milk, eggs, bread''
                                 PriorityMedium None sampleWorld)))\<rparr>"
  by (simp add: CreateTodo_def groceriesRequest_def NewTaskTitle_Buy_groceries NewPriority_medium
      mockService_simps dispatchAndRespond_def MapTodoToResponse_def ClearEvents_def
      NewTodo_def NewTodoID_def uuidNewString_def timeNow_def NewTodoCreatedEvent_def addEvent_def
      sampleWorld_def status_defs priority_defs Let_def split_def)

theorem priority_default_applied_by_handler_witness:
  "CreateTodoRequest.Priority (groceriesRequest []) = [] \<and>
   NewTaskTitle (CreateTodoRequest.Title (groceriesRequest [])) = Inr (TaskTitle ''Buy groceries'') \<and>
   result (CreateTodo sampleUnicodeLower (mockService None None (fst (createValidTodo sampleWorld)))
             (groceriesRequest []) sampleWorld)
     = Inl (Wrapped ''invalid priority'' ErrInvalidPriority) \<and>
   calls (CreateTodo sampleUnicodeLower (mockService None None (fst (createValidTodo sampleWorld)))
            (groceriesRequest []) sampleWorld) = [] \<and>
   CreateTodoRequest.Priority (groceriesRequest (mapPriorityFromProto Priority_PRIORITY_UNSPECIFIED))
     = mapPriorityFromProto Priority_PRIORITY_UNSPECIFIED \<and>
   result (CreateTodo sampleUnicodeLower (mockService None None (fst (createValidTodo sampleWorld)))
             (groceriesRequest (mapPriorityFromProto Priority_PRIORITY_UNSPECIFIED)) sampleWorld)
     = Inr \<lparr>ID = ''todo-'', TodoResponse.Title = ''Buy groceries'',
             TodoResponse.Description = ''Milk, eggs, bread'',
             TodoResponse.Status = ''pending'', TodoResponse.Priority = ''medium'',
             TodoResponse.DueDate = None, CreatedAt = 1000, UpdatedAt = 1000\<rparr> \<and>
   TodoResponse.Priority
     \<lparr>ID = ''todo-'', TodoResponse.Title = ''Buy groceries'',
      TodoResponse.Description = ''Milk, eggs, bread'',
      TodoResponse.Status = ''pending'', TodoResponse.Priority = ''medium'',
      TodoResponse.DueDate = None, CreatedAt = 1000, UpdatedAt = 1000\<rparr> = PriorityMedium"
proof -
  let ?s = "mockService None None (fst (createValidTodo sampleWorld))"
  let ?resp = "\<lparr>ID = ''todo-'', TodoResponse.Title = ''Buy groceries'',
      TodoResponse.Description = ''Milk, eggs, bread'',
      TodoResponse.Status = ''pending'', TodoResponse.Priority = ''medium'',
      TodoResponse.DueDate = None, CreatedAt = 1000, UpdatedAt = 1000\<rparr>"
  note bad = priority_default_applied_by_handler [where creq = "groceriesRequest []"
      and s = ?s and w = sampleWorld and unicodeLower = sampleUnicodeLower]
  note good = priority_default_applied_by_handler
    [where creq = "groceriesRequest (mapPriorityFromProto Priority_PRIORITY_UNSPECIFIED)"
      and s = ?s and w = sampleWorld and unicodeLower = sampleUnicodeLower]
  have h1: "CreateTodoRequest.Priority (groceriesRequest []) = []"
    by (simp add: groceriesRequest_def)
  have h2: "NewTaskTitle (CreateTodoRequest.Title (groceriesRequest []))
      = Inr (TaskTitle ''Buy groceries'')"
    by (simp add: groceriesRequest_def NewTaskTitle_Buy_groceries)
  from bad h1 h2 have c1: "result (CreateTodo sampleUnicodeLower ?s (groceriesRequest []) sampleWorld)
      = Inl (Wrapped ''invalid priority'' ErrInvalidPriority)"
    and c2: "calls (CreateTodo sampleUnicodeLower ?s (groceriesRequest []) sampleWorld) = []"
    by blast+
  have h3: "CreateTodoRequest.Priority
      (groceriesRequest (mapPriorityFromProto Priority_PRIORITY_UNSPECIFIED))
     = mapPriorityFromProto Priority_PRIORITY_UNSPECIFIED"
    by (simp add: groceriesRequest_def)
  have h4: "result (CreateTodo sampleUnicodeLower ?s
      (groceriesRequest (mapPriorityFromProto Priority_PRIORITY_UNSPECIFIED)) sampleWorld)
      = Inr ?resp"
    by (simp add: CreateTodo_groceries_medium)
  from good h3 h4 have c3: "TodoResponse.Priority ?resp = PriorityMedium"
    by blast
  from h1 h2 c1 c2 h3 h4 c3 show ?thesis by (intro conjI)
qed


subsection \<open>The completion time invariant\<close>

lemma NewTodo_completedAtInvariant: "completedAtInvariant (fst (NewTodo ti d p dd w))"
  by (simp add: completedAtInvariant_def NewTodo_def NewTodoID_def uuidNewString_def timeNow_def
      NewTodoCreatedEvent_def addEvent_def Let_def split_def status_defs)

lemma perform_completedAtInvariant:
  assumes "completedAtInvariant t" and "\<not> isUpdateStatus operation"
  shows "completedAtInvariant (fst (snd (perform operation t w)))"
  using assms
  by (cases operation)
    (simp_all add: completedAtInvariant_def UpdateTitle_def UpdateDescription_def
      UpdatePriority_def UpdateDueDate_def Complete_def Reopen_def Cancel_def MarkInProgress_def
      IsCompleted_def IsCancelled_def timeNow_def event_defs addEvent_def Let_def status_defs)

lemma performAll_completedAtInvariant:
  assumes "completedAtInvariant t" and "\<forall>operation \<in> set ops. \<not> isUpdateStatus operation"
  shows "completedAtInvariant (fst (performAll ops t w))"
  using assms
proof (induction ops arbitrary: t w)
  case Nil
  then show ?case by simp
next
  case (Cons operation rest)
  obtain err t1 w1 where step: "perform operation t w = (err, t1, w1)" by (metis prod_cases3)
  from Cons.prems have "completedAtInvariant (fst (snd (perform operation t w)))"
    by (simp add: perform_completedAtInvariant)
  with step have "completedAtInvariant t1" by simp
  moreover from Cons.prems have "\<forall>operation \<in> set rest. \<not> isUpdateStatus operation" by simp
  ultimately have "completedAtInvariant (fst (performAll rest t1 w1))" by (rule Cons.IH)
  with step show ?case by simp
qed

lemma UpdateStatus_same_completion:
  assumes "completedAtInvariant t"
    and "(newStatus = StatusCompleted) = (status t = StatusCompleted)"
  shows "completedAtInvariant (fst (snd (UpdateStatus newStatus t w)))"
  using assms
  by (simp add: completedAtInvariant_def UpdateStatus_def timeNow_def event_defs addEvent_def
      Let_def)

text \<open>
  Claim C1. The invariant "the completion time is set iff the status is completed" does
  not hold of every todo reached from \<open>NewTodo\<close> by the public operations:
  \<open>UpdateStatus\<close> changes the status and leaves the completion time as it is. On the
  todo of \<open>createValidTodo\<close>, \<open>UpdateStatus(completed)\<close> succeeds and gives a completed
  todo with no completion time; \<open>Complete\<close> followed by \<open>UpdateStatus(pending)\<close> gives a
  pending todo that still has the completion time 1002. (The lemmas above show that
  the invariant holds after \<open>NewTodo\<close> and is kept by every other operation, and by
  \<open>UpdateStatus\<close> when it moves neither to nor from completed.)
\<close>

theorem UpdateStatus_breaks_completedAt_invariant:
  "completedAtInvariant (fst (createValidTodo sampleWorld)) \<and>
   fst (UpdateStatus StatusCompleted (fst (createValidTodo sampleWorld))
          (snd (createValidTodo sampleWorld))) = None \<and>
   status (fst (performAll [OpUpdateStatus StatusCompleted] (fst (createValidTodo sampleWorld))
                  (snd (createValidTodo sampleWorld)))) = StatusCompleted \<and>
   completedAt (fst (performAll [OpUpdateStatus StatusCompleted] (fst (createValidTodo sampleWorld))
                  (snd (createValidTodo sampleWorld)))) = None \<and>
   \<not> completedAtInvariant
        (fst (performAll [OpUpdateStatus StatusCompleted] (fst (createValidTodo sampleWorld))
                (snd (createValidTodo sampleWorld)))) \<and>
   status (fst (performAll [OpComplete, OpUpdateStatus StatusPending]
                  (fst (createValidTodo sampleWorld)) (snd (createValidTodo sampleWorld))))
     = StatusPending \<and>
   completedAt (fst (performAll [OpComplete, OpUpdateStatus StatusPending]
                  (fst (createValidTodo sampleWorld)) (snd (createValidTodo sampleWorld))))
     = Some 1002 \<and>
   \<not> completedAtInvariant
        (fst (performAll [OpComplete, OpUpdateStatus StatusPending]
                (fst (createValidTodo sampleWorld)) (snd (createValidTodo sampleWorld))))"
  by (simp add: createValidTodo_sample completedAtInvariant_def UpdateStatus_def Complete_def
      CanTransitionTo_def IsCompleted_def IsCancelled_def timeNow_def event_defs addEvent_def
      Let_def status_defs sampleWorld_def)

end
